theory Spec2Isabelle
  imports Main
begin

section \<open>Common ground: exceptions, effects, Python library functions\<close>

text \<open>
  Both scripts are straight-line sequences of effects on the outside world (log calls,
  shell commands, S3 requests, file-system operations).  The model records every such
  effect, in program order, as an \<open>event\<close> of a trace, and every exception the
  source can raise as a value of \<open>exn\<close>.
\<close>

datatype exn =
    ValueError string
  | RuntimeError string
  | ArgumentTypeError string
  | ArgparseExit string
  | CalledProcessError
  | ClientError
  | TypeError
  | OSError string
  | OtherError string

datatype event =
    LogDebug string
  | LogInfo string
  | LogWarning string
  | LogError string
  | Shell string
  | Popen string
  | Kill
  | Flush
  | CloseLog
  | S3Head string string
  | S3Upload string string string
  | Makedirs string
  | Mkdir string
  | Remove string
  | Rename string string

subsection \<open>A program is a state transformer that may raise\<close>

type_synonym ('s, 'a) prog = "'s \<Rightarrow> (exn + 'a) \<times> 's"

definition return :: "'a \<Rightarrow> ('s, 'a) prog" where
  "return x = (\<lambda>s. (Inr x, s))"

definition raise :: "exn \<Rightarrow> ('s, 'a) prog" where
  "raise e = (\<lambda>s. (Inl e, s))"

definition bind :: "('s, 'a) prog \<Rightarrow> ('a \<Rightarrow> ('s, 'b) prog) \<Rightarrow> ('s, 'b) prog" where
  "bind m k = (\<lambda>s. case m s of (Inl e, s') \<Rightarrow> (Inl e, s') | (Inr x, s') \<Rightarrow> k x s')"

text \<open>A block of statements: each runs in turn, the first exception ends the block.\<close>

fun block :: "('s, unit) prog list \<Rightarrow> ('s, unit) prog" where
  "block [] = return ()"
| "block (m # ms) = bind m (\<lambda>_. block ms)"

definition whenever :: "bool \<Rightarrow> ('s, unit) prog \<Rightarrow> ('s, unit) prog" where
  "whenever b m = (if b then m else return ())"

subsection \<open>Strings: \<open>str.join\<close>, \<open>str.split\<close>, \<open>str.strip\<close>, \<open>int\<close>, \<open>str\<close>\<close>

definition is_space :: "char \<Rightarrow> bool" where
  "is_space c = ((of_char c :: nat) \<in> {9, 10, 11, 12, 13, 28, 29, 30, 31, 32})"

definition is_digit :: "char \<Rightarrow> bool" where
  "is_digit c = (48 \<le> (of_char c :: nat) \<and> (of_char c :: nat) \<le> 57)"

definition digit_val :: "char \<Rightarrow> nat" where
  "digit_val c = of_char c - 48"

definition rstrip :: "string \<Rightarrow> string" where
  "rstrip s = rev (dropWhile is_space (rev s))"

definition strip :: "string \<Rightarrow> string" where
  "strip s = rstrip (dropWhile is_space s)"

fun join :: "string \<Rightarrow> string list \<Rightarrow> string" where
  "join sep [] = []"
| "join sep [x] = x"
| "join sep (x # y # ys) = x @ sep @ join sep (y # ys)"

text \<open>\<open>s.split()\<close>: the maximal runs of non-whitespace characters.\<close>

fun split_acc :: "string \<Rightarrow> string \<Rightarrow> string list" where
  "split_acc cur [] = (if cur = [] then [] else [rev cur])"
| "split_acc cur (c # cs) =
     (if is_space c then (if cur = [] then split_acc [] cs else rev cur # split_acc [] cs)
      else split_acc (c # cur) cs)"

definition split :: "string \<Rightarrow> string list" where
  "split s = split_acc [] s"

text \<open>
  \<open>str(n)\<close> of an integer: decimal digits, a minus sign for negative numbers.
\<close>

fun str_nat :: "nat \<Rightarrow> string" where
  "str_nat n = (if n < 10 then [char_of (48 + n)]
                else str_nat (n div 10) @ [char_of (48 + n mod 10)])"

declare str_nat.simps [simp del]

definition str_int :: "int \<Rightarrow> string" where
  "str_int i = (if i < 0 then CHR ''-'' # str_nat (nat (- i)) else str_nat (nat i))"

text \<open>
  \<open>int(s)\<close> on ASCII text: surrounding whitespace is dropped, one sign is allowed, then
  decimal digits, where single underscores may separate digits.  Anything else raises
  \<open>ValueError\<close>.
\<close>

fun digits_ok :: "string \<Rightarrow> bool" where
  "digits_ok [] = False"
| "digits_ok [c] = is_digit c"
| "digits_ok (c # d # cs) =
     (is_digit c \<and> (if d = CHR ''_'' then digits_ok cs else digits_ok (d # cs)))"

definition digits_value :: "string \<Rightarrow> nat" where
  "digits_value s = foldl (\<lambda>a c. 10 * a + digit_val c) 0 (filter (\<lambda>c. c \<noteq> CHR ''_'') s)"

definition int_of_str :: "string \<Rightarrow> exn + int" where
  "int_of_str s =
     (let t = strip s;
          neg = (t \<noteq> [] \<and> hd t = CHR ''-'');
          body = (if t \<noteq> [] \<and> (hd t = CHR ''-'' \<or> hd t = CHR ''+'') then tl t else t)
      in if digits_ok body
         then Inr (if neg then - int (digits_value body) else int (digits_value body))
         else Inl (ValueError (''invalid literal for int() with base 10: '' @ s)))"

subsection \<open>Paths: \<open>os.path.join\<close>, \<open>os.path.basename\<close>, \<open>os.path.split\<close> (POSIX)\<close>

definition path_join2 :: "string \<Rightarrow> string \<Rightarrow> string" where
  "path_join2 a b =
     (if b \<noteq> [] \<and> hd b = CHR ''/'' then b
      else if a = [] \<or> last a = CHR ''/'' then a @ b
      else a @ ''/'' @ b)"

definition path_join :: "string \<Rightarrow> string list \<Rightarrow> string" where
  "path_join a ps = foldl path_join2 a ps"

definition basename :: "string \<Rightarrow> string" where
  "basename p = rev (takeWhile (\<lambda>c. c \<noteq> CHR ''/'') (rev p))"

definition path_split :: "string \<Rightarrow> string \<times> string" where
  "path_split p =
     (let tail = basename p;
          head = take (length p - length tail) p
      in (if head \<noteq> [] \<and> filter (\<lambda>c. c \<noteq> CHR ''/'') head \<noteq> []
          then rev (dropWhile (\<lambda>c. c = CHR ''/'') (rev head)) else head, tail))"

section \<open>The launcher: \<open>aegea_launcher.py\<close>\<close>

subsection \<open>\<open>resource_range\<close>\<close>

text \<open>
  The validator built by \<open>resource_range(name, min_val, max_val)\<close>.  Each message has one
  placeholder and is formatted with two arguments, so only the name is inserted.
\<close>

definition resource_range :: "string \<Rightarrow> int \<Rightarrow> int \<Rightarrow> string \<Rightarrow> exn + int" where
  "resource_range name min_val max_val s =
     (case int_of_str s of
        Inl e \<Rightarrow> Inl e
      | Inr v \<Rightarrow>
          if v < min_val then Inl (ArgumentTypeError (name @ '' must be at least''))
          else if v > max_val then Inl (ArgumentTypeError (name @ '' can be at most''))
          else Inr v)"

subsection \<open>The command line and \<open>parser.parse_args()\<close>\<close>

text \<open>
  \<open>cli\<close> is the command line as given: an option that was not given is \<open>None\<close>, a
  \<open>store_true\<close> flag is a boolean.  \<open>args\<close> is the namespace \<open>parse_args\<close> returns.
\<close>

record cli =
  c_s3_script_path :: string
  c_script_name :: string
  c_script_args :: string
  c_ecr_image :: "string option"
  c_ami :: "string option"
  c_queue :: "string option"
  c_vcpus :: "string option"
  c_memory :: "string option"
  c_storage :: "string option"
  c_ulimits :: "string list option"
  c_environment :: "string list option"
  c_dryrun :: bool
  c_upload :: bool
  c_debug :: bool
  c_testargs :: bool

record args =
  s3_script_path :: string
  script_name :: string
  script_args :: string
  ecr_image :: "string option"
  ami :: "string option"
  queue :: string
  vcpus :: int
  memory :: int
  storage :: "int option"
  ulimits :: "string list option"
  environment :: "string list option"
  dryrun :: bool
  upload :: bool
  debug :: bool
  testargs :: bool

definition vcpus_type :: "string \<Rightarrow> exn + int" where
  "vcpus_type = resource_range ''vcpus'' 1 64"

definition memory_type :: "string \<Rightarrow> exn + int" where
  "memory_type = resource_range ''memory'' 0 256000"

definition storage_type :: "string \<Rightarrow> exn + int" where
  "storage_type = resource_range ''storage'' 500 16000"

text \<open>
  How argparse applies a \<open>type=\<close> function to the text of an option: an
  \<open>ArgumentTypeError\<close> becomes the parser's error with the validator's message, any
  \<open>ValueError\<close> the parser's "invalid value" error; the parser's error ends the
  program (\<open>SystemExit\<close>, here \<open>ArgparseExit\<close>).  An option that was not given
  keeps its default, which is not passed through the function.
\<close>

definition typed_option ::
  "string \<Rightarrow> (string \<Rightarrow> exn + int) \<Rightarrow> 'a \<Rightarrow> (int \<Rightarrow> 'a) \<Rightarrow> string option \<Rightarrow> exn + 'a" where
  "typed_option flag ty dflt wrap given =
     (case given of
        None \<Rightarrow> Inr dflt
      | Some s \<Rightarrow>
          (case ty s of
             Inr v \<Rightarrow> Inr (wrap v)
           | Inl (ArgumentTypeError msg) \<Rightarrow> Inl (ArgparseExit (''argument '' @ flag @ '': '' @ msg))
           | Inl _ \<Rightarrow> Inl (ArgparseExit (''argument '' @ flag @ '': invalid range_validator value: '' @ s))))"

text \<open>
  \<open>--ecr-image\<close> and \<open>--ami\<close> are in one mutually exclusive group: argparse ends the
  program when both are given.
\<close>

definition parse_args :: "cli \<Rightarrow> exn + args" where
  "parse_args c =
     (if c_ecr_image c \<noteq> None \<and> c_ami c \<noteq> None
      then Inl (ArgparseExit ''argument --ami: not allowed with argument --ecr-image'')
      else
        case typed_option ''--vcpus'' vcpus_type 1 id (c_vcpus c) of
          Inl e \<Rightarrow> Inl e
        | Inr v \<Rightarrow>
           (case typed_option ''--memory'' memory_type 4000 id (c_memory c) of
              Inl e \<Rightarrow> Inl e
            | Inr m \<Rightarrow>
               (case typed_option ''--storage'' storage_type None Some (c_storage c) of
                  Inl e \<Rightarrow> Inl e
                | Inr st \<Rightarrow>
                    Inr \<lparr> s3_script_path = c_s3_script_path c,
                          script_name = c_script_name c,
                          script_args = c_script_args c,
                          ecr_image = c_ecr_image c,
                          ami = c_ami c,
                          queue = (case c_queue c of None \<Rightarrow> ''aegea_batch'' | Some q \<Rightarrow> q),
                          vcpus = v,
                          memory = m,
                          storage = st,
                          ulimits = c_ulimits c,
                          environment = c_environment c,
                          dryrun = c_dryrun c,
                          upload = c_upload c,
                          debug = c_debug c,
                          testargs = c_testargs c \<rparr>)))"

subsection \<open>The world the launcher runs in\<close>

text \<open>
  What the launcher cannot decide by itself: whether the script file exists locally, what
  the S3 client answers, what importing the script gives, and what the submission command
  prints.  A loaded module either has no \<open>get_parser\<close> attribute, or calling it raises, or
  it gives a parser, which accepts a list of arguments or raises on it.
\<close>

datatype script_module =
    NoGetParser
  | GetParserRaises exn
  | Parser "string list \<Rightarrow> exn option"

record launcher_env =
  script_exists :: bool
  head_object :: "exn option"
  upload_file :: "exn option"
  exec_module :: "exn + script_module"
  submit_output :: "exn + string"

type_synonym trace = "event list"

definition emit :: "event \<Rightarrow> (trace, unit) prog" where
  "emit ev = (\<lambda>tr. (Inr (), tr @ [ev]))"

definition outcome :: "exn option \<Rightarrow> (trace, unit) prog" where
  "outcome r = (case r of None \<Rightarrow> return () | Some e \<Rightarrow> raise e)"

text \<open>Python truth of an optional string, an optional integer and an optional list.\<close>

definition truthy :: "'a list option \<Rightarrow> bool" where
  "truthy x = (case x of None \<Rightarrow> False | Some v \<Rightarrow> v \<noteq> [])"

definition truthy_int :: "int option \<Rightarrow> bool" where
  "truthy_int x = (case x of None \<Rightarrow> False | Some v \<Rightarrow> v \<noteq> 0)"

subsection \<open>The script body\<close>

definition script_base :: "args \<Rightarrow> string" where
  "script_base a = basename (script_name a)"

definition s3_bucket :: "args \<Rightarrow> string" where
  "s3_bucket a = fst (path_split (s3_script_path a))"

definition s3_key :: "args \<Rightarrow> string" where
  "s3_key a = path_join (join ''/'' [snd (path_split (s3_script_path a))]) [script_base a]"

text \<open>
  Line 123 reads \<open>if not args.ecr_image or args.ami\<close>, which Python parses as
  \<open>(not args.ecr_image) or args.ami\<close>.
\<close>

definition default_image :: "args \<Rightarrow> args" where
  "default_image a =
     (if \<not> truthy (ecr_image a) \<or> truthy (ami a)
      then a\<lparr>ecr_image := Some ''sra_download''\<rparr> else a)"

definition cant_find_script :: "args \<Rightarrow> exn" where
  "cant_find_script a = ValueError (''Can't find script: '' @ script_name a)"

definition upload_step :: "launcher_env \<Rightarrow> args \<Rightarrow> (trace, unit) prog" where
  "upload_step env a =
     (if upload a then
        block [
          whenever (\<not> script_exists env) (raise (cant_find_script a)),
          emit (LogInfo (''Uploading '' @ script_name a @ '' to s3://''
                           @ path_join (s3_bucket a) [s3_key a])),
          emit (LogDebug (''Filename: '' @ script_name a @ '', Bucket: '' @ s3_bucket a
                           @ '', Key: '' @ s3_key a)),
          whenever (\<not> dryrun a)
            (block [emit (S3Upload (script_name a) (s3_bucket a) (s3_key a)),
                    outcome (upload_file env)])]
      else
        block [
          emit (S3Head (s3_bucket a) (s3_key a)),
          (case head_object env of
             None \<Rightarrow> return ()
           | Some ClientError \<Rightarrow>
               raise (ValueError (script_name a @ '' is not on s3, you should upload it.''))
           | Some e \<Rightarrow> raise e)])"

definition no_get_parser :: "args \<Rightarrow> exn" where
  "no_get_parser a =
     ValueError (script_name a @ '' has no 'get_parser' method, can't test args'')"

definition testargs_step :: "launcher_env \<Rightarrow> args \<Rightarrow> (trace, unit) prog" where
  "testargs_step env a =
     whenever (testargs a)
       (block [
          whenever (\<not> script_exists env) (raise (cant_find_script a)),
          emit (LogDebug ''Testing script args''),
          emit (LogDebug ''Importing script as a module''),
          (case exec_module env of
             Inl e \<Rightarrow> raise e
           | Inr NoGetParser \<Rightarrow> raise (no_get_parser a)
           | Inr (GetParserRaises e) \<Rightarrow> raise e
           | Inr (Parser script_parser) \<Rightarrow>
               (case script_parser (split (script_args a)) of
                  None \<Rightarrow> return ()
                | Some e \<Rightarrow>
                    block [emit (LogError (script_name a @ '' failed with the given arg string''
                                             @ [CHR 0x0A, CHR 0x09] @ script_args a)),
                           raise e])),
          emit (LogDebug ''Script parsed args successfully'')])"

definition job_command :: "args \<Rightarrow> string" where
  "job_command a =
     ''aws s3 cp s3://'' @ path_join (s3_bucket a) [s3_key a] @ '' .; chmod 755 ''
       @ script_base a @ ''; ./'' @ script_base a @ '' '' @ script_args a"

definition aegea_command :: "args \<Rightarrow> string list" where
  "aegea_command a =
     [''aegea'', ''batch'', ''submit'',
      ''--queue'', queue a,
      ''--vcpus'', str_int (vcpus a),
      ''--memory'', str_int (memory a)]
     @ (if truthy (ecr_image a) then [''--ecr-image'', the (ecr_image a)]
        else if truthy (ami a) then [''--ami'', the (ami a)] else [])
     @ (if truthy_int (storage a) then [''--storage'', ''/mnt='' @ str_int (the (storage a))]
        else [])
     @ (if truthy (ulimits a) then [''--ulimits'', join '' '' (the (ulimits a))] else [])
     @ (if truthy (environment a)
        then [''--environment'', join '' '' (the (environment a))] else [])
     @ [''--command'', [CHR 0x22] @ job_command a @ [CHR 0x22]]"

definition executing :: "string \<Rightarrow> string" where
  "executing cmd = ''executing command:'' @ [CHR 0x0A, CHR 0x09] @ cmd"

definition submit_step :: "launcher_env \<Rightarrow> args \<Rightarrow> (trace, unit) prog" where
  "submit_step env a =
     block [
       emit (LogInfo (executing (join '' '' (aegea_command a)))),
       whenever (\<not> dryrun a)
         (block [emit (Shell (join '' '' (aegea_command a))),
                 (case submit_output env of
                    Inl e \<Rightarrow> raise e
                  | Inr job_id \<Rightarrow> emit (LogInfo (''Launched job with jobId: '' @ job_id)))])]"

definition launcher_body :: "launcher_env \<Rightarrow> args \<Rightarrow> (trace, unit) prog" where
  "launcher_body env a0 =
     (let a = default_image a0 in
      block [
        emit (LogDebug ''Starting S3 client''),
        upload_step env a,
        testargs_step env a,
        submit_step env a])"

definition launcher :: "launcher_env \<Rightarrow> cli \<Rightarrow> (exn + unit) \<times> trace" where
  "launcher env c =
     (case parse_args c of
        Inl e \<Rightarrow> (Inl e, [])
      | Inr a \<Rightarrow> launcher_body env a [])"

section \<open>The demultiplexing runner: \<open>demux/bcl2fastq.py\<close>\<close>

subsection \<open>Arguments, world and state\<close>

record dargs =
  exp_id :: "string option"
  s3_input_dir :: string
  s3_output_dir :: string
  s3_report_dir :: string
  s3_sample_sheet_dir :: string
  star_structure :: bool
  bcl2fastq_options :: string
  skip_undetermined :: bool
  sample_sheet_name :: "string option"
  root_dir :: string

text \<open>
  A directory is a list of named entries, in the order \<open>os.listdir\<close> gives them; an
  entry is a file (with an identity, to tell files apart) or a directory.
\<close>

datatype entry = File nat | Dir "(string \<times> entry) list"

type_synonym dir = "(string \<times> entry) list"

text \<open>
  What the runner cannot decide by itself.  \<open>shell n\<close> is the outcome of the \<open>n\<close>-th
  command the run passes to \<open>subprocess.check_output\<close>, counted from 0: its output, or
  \<open>None\<close> for a non-zero exit status.  \<open>produced\<close> is what the demultiplexing binary
  leaves in the output directory.
\<close>

record demux_env =
  job_id :: "string option"
  shell :: "nat \<Rightarrow> string option"
  makedirs_result :: "exn option"
  mkdir_result :: "exn option"
  produced :: dir
  log_open :: "exn option"

record dstate =
  events :: "event list"
  calls :: nat
  outdir :: dir

definition start :: dstate where
  "start = \<lparr> events = [], calls = 0, outdir = [] \<rparr>"

definition perform :: "event \<Rightarrow> (dstate, unit) prog" where
  "perform ev = (\<lambda>s. (Inr (), s\<lparr>events := events s @ [ev]\<rparr>))"

definition check_output :: "demux_env \<Rightarrow> string \<Rightarrow> (dstate, string) prog" where
  "check_output env cmd =
     (\<lambda>s. let s' = s\<lparr>events := events s @ [Shell cmd], calls := calls s + 1\<rparr>
          in case shell env (calls s) of
               None \<Rightarrow> (Inl CalledProcessError, s')
             | Some out \<Rightarrow> (Inr out, s'))"

definition log_command :: "demux_env \<Rightarrow> string list \<Rightarrow> (dstate, unit) prog" where
  "log_command env command =
     bind (perform (LogInfo (join '' '' command)))
       (\<lambda>_. bind (check_output env (join '' '' command))
          (\<lambda>output. perform (LogDebug output)))"

subsection \<open>The retry loop\<close>

text \<open>
  \<^verbatim>\<open>for i in range(S3_RETRY): try: <body>; break
  except subprocess.CalledProcessError: logger.info(<msg>)
  else: raise RuntimeError(<err>)\<close>
  The first argument counts the iterations that are left.
\<close>

definition S3_RETRY :: nat where
  "S3_RETRY = 5"

fun retry :: "nat \<Rightarrow> (dstate, unit) prog \<Rightarrow> string \<Rightarrow> string \<Rightarrow> (dstate, unit) prog" where
  "retry 0 body msg err = raise (RuntimeError err)"
| "retry (Suc n) body msg err =
     (\<lambda>s. case body s of
            (Inr _, s') \<Rightarrow> (Inr (), s')
          | (Inl CalledProcessError, s') \<Rightarrow>
              bind (perform (LogInfo msg)) (\<lambda>_. retry n body msg err) s'
          | (Inl e, s') \<Rightarrow> (Inl e, s'))"

subsection \<open>The four retried operations\<close>

definition fmt :: "string option \<Rightarrow> string" where
  "fmt x = (case x of None \<Rightarrow> ''None'' | Some s \<Rightarrow> s)"

definition sheet_name :: "dargs \<Rightarrow> string" where
  "sheet_name a =
     (case sample_sheet_name a of None \<Rightarrow> fmt (exp_id a) @ ''.csv'' | Some n \<Rightarrow> n)"

definition sheet_source :: "dargs \<Rightarrow> string" where
  "sheet_source a = path_join (s3_sample_sheet_dir a) [sheet_name a]"

definition download_sheet :: "demux_env \<Rightarrow> dargs \<Rightarrow> string \<Rightarrow> (dstate, unit) prog" where
  "download_sheet env a result_path =
     retry S3_RETRY
       (log_command env [''aws'', ''s3'', ''cp'', sheet_source a, result_path])
       ''retrying s3 copy''
       (''couldn't download sample sheet '' @ sheet_source a)"

definition bcl_source :: "dargs \<Rightarrow> string \<Rightarrow> string" where
  "bcl_source a exp = path_join (s3_input_dir a) [exp]"

definition sync_bcl :: "demux_env \<Rightarrow> dargs \<Rightarrow> string \<Rightarrow> string \<Rightarrow> (dstate, unit) prog" where
  "sync_bcl env a exp bcl_path =
     retry S3_RETRY
       (log_command env [''aws'', ''s3'', ''sync'', bcl_source a exp, bcl_path])
       ''retrying s3 sync bcl''
       (''couldn't sync '' @ bcl_source a exp)"

definition dq :: string where
  "dq = [CHR 0x22]"

definition fastq_target :: "dargs \<Rightarrow> string \<Rightarrow> string" where
  "fastq_target a exp = path_join (s3_output_dir a) [exp, ''rawdata'']"

definition sync_fastqs :: "demux_env \<Rightarrow> dargs \<Rightarrow> string \<Rightarrow> string \<Rightarrow> (dstate, unit) prog" where
  "sync_fastqs env a exp output_path =
     retry S3_RETRY
       (log_command env [''aws'', ''s3'', ''sync'', output_path, fastq_target a exp,
                         ''--exclude'', dq @ ''*'' @ dq, ''--include'', dq @ ''*fastq.gz'' @ dq])
       ''retrying sync fastq''
       ''couldn't sync fastqs''"

definition report_target :: "dargs \<Rightarrow> string \<Rightarrow> string" where
  "report_target a exp = path_join (s3_report_dir a) [exp]"

definition cp_reports :: "demux_env \<Rightarrow> dargs \<Rightarrow> string \<Rightarrow> string \<Rightarrow> (dstate, unit) prog" where
  "cp_reports env a exp reports_path =
     retry S3_RETRY
       (log_command env [''aws'', ''s3'', ''cp'', reports_path, report_target a exp,
                         ''--recursive''])
       ''retrying cp reports''
       ''couldn't cp reports''"

subsection \<open>The output directory: \<open>glob\<close>, \<open>re.match\<close>, \<open>os.remove\<close>, \<open>os.mkdir\<close>, \<open>os.rename\<close>\<close>

definition starts_with :: "string \<Rightarrow> string \<Rightarrow> bool" where
  "starts_with pre s = (take (length pre) s = pre)"

definition ends_with :: "string \<Rightarrow> string \<Rightarrow> bool" where
  "ends_with suf s = (length suf \<le> length s \<and> drop (length s - length suf) s = suf)"

text \<open>
  \<open>glob.glob(os.path.join(output_path, '*fastq.gz'))\<close>: the entries of the directory
  whose name ends in \<open>fastq.gz\<close>; a leading \<open>*\<close> does not match a hidden entry (a
  name that starts with a dot).  The result is a snapshot taken before the loop.
\<close>

definition glob_fastqgz :: "dir \<Rightarrow> string list" where
  "glob_fastqgz d =
     filter (\<lambda>n. \<not> starts_with ''.'' n \<and> ends_with ''fastq.gz'' n) (map fst d)"

text \<open>
  \<open>re.match("(.+)(_R[12]_001.fastq.gz)", name)\<close>.  The second group is a sequence of
  one-character patterns; an unescaped dot matches every character but a newline.  The
  match is anchored at the start of the name only, and \<open>.+\<close> is greedy: it takes as
  many characters as it can and gives back one at a time until the rest matches.
\<close>

datatype item = Lit char | AnyChar | OneOf string

fun match_item :: "item \<Rightarrow> char \<Rightarrow> bool" where
  "match_item (Lit l) c = (c = l)"
| "match_item AnyChar c = (c \<noteq> CHR 0x0A)"
| "match_item (OneOf cs) c = (c \<in> set cs)"

fun match_items :: "item list \<Rightarrow> string \<Rightarrow> bool" where
  "match_items [] s = True"
| "match_items (p # ps) [] = False"
| "match_items (p # ps) (c # cs) = (match_item p c \<and> match_items ps cs)"

definition read_suffix :: "item list" where
  "read_suffix =
     map Lit ''_R'' @ [OneOf ''12''] @ map Lit ''_001'' @ [AnyChar] @ map Lit ''fastq''
       @ [AnyChar] @ map Lit ''gz''"

fun greedy :: "string \<Rightarrow> string \<Rightarrow> string option" where
  "greedy taken [] = None"
| "greedy taken (c # cs) =
     (case (if c \<noteq> CHR 0x0A then greedy (c # taken) cs else None) of
        Some g \<Rightarrow> Some g
      | None \<Rightarrow> if taken \<noteq> [] \<and> match_items read_suffix (c # cs)
                then Some (rev taken) else None)"

definition re_match_group1 :: "string \<Rightarrow> string option" where
  "re_match_group1 name = greedy [] name"

text \<open>
  The file-system calls, on the entries of the output directory.  A name that is not
  there, a file where a directory is needed and a directory where a file is needed make
  the call raise \<open>OSError\<close>, as on POSIX.
\<close>

definition del :: "string \<Rightarrow> dir \<Rightarrow> dir" where
  "del n d = filter (\<lambda>p. fst p \<noteq> n) d"

definition fs_exists :: "string \<Rightarrow> dir \<Rightarrow> bool" where
  "fs_exists n d = (map_of d n \<noteq> None)"

definition fs_remove :: "string \<Rightarrow> dir \<Rightarrow> exn + dir" where
  "fs_remove n d =
     (case map_of d n of
        None \<Rightarrow> Inl (OSError ''FileNotFoundError'')
      | Some (Dir _) \<Rightarrow> Inl (OSError ''IsADirectoryError'')
      | Some (File _) \<Rightarrow> Inr (del n d))"

definition fs_mkdir :: "string \<Rightarrow> dir \<Rightarrow> exn + dir" where
  "fs_mkdir n d =
     (if fs_exists n d then Inl (OSError ''FileExistsError'') else Inr (d @ [(n, Dir [])]))"

text \<open>
  \<open>os.rename(output_path/n, output_path/sub/base)\<close>: the entry \<open>n\<close> becomes the entry
  \<open>base\<close> of the directory \<open>sub\<close>.  A file replaces a file of that name, a directory
  replaces an empty directory; the other clashes raise.
\<close>

definition fs_rename_into :: "string \<Rightarrow> string \<Rightarrow> string \<Rightarrow> dir \<Rightarrow> exn + dir" where
  "fs_rename_into n sub base d =
     (case map_of d n of
        None \<Rightarrow> Inl (OSError ''FileNotFoundError'')
      | Some e \<Rightarrow>
         (if n = sub then Inl (OSError ''EINVAL'')
          else case map_of d sub of
             None \<Rightarrow> Inl (OSError ''FileNotFoundError'')
           | Some (File _) \<Rightarrow> Inl (OSError ''NotADirectoryError'')
           | Some (Dir inner) \<Rightarrow>
              (let moved = map (\<lambda>(k, v). if k = sub then (k, Dir (del base inner @ [(base, e)]))
                                          else (k, v)) (del n d)
               in case (e, map_of inner base) of
                    (_, None) \<Rightarrow> Inr moved
                  | (File _, Some (File _)) \<Rightarrow> Inr moved
                  | (File _, Some (Dir _)) \<Rightarrow> Inl (OSError ''IsADirectoryError'')
                  | (Dir _, Some (File _)) \<Rightarrow> Inl (OSError ''NotADirectoryError'')
                  | (Dir _, Some (Dir [])) \<Rightarrow> Inr moved
                  | (Dir _, Some (Dir (_ # _))) \<Rightarrow> Inl (OSError ''ENOTEMPTY''))))"

definition fs_call :: "event \<Rightarrow> (dir \<Rightarrow> exn + dir) \<Rightarrow> (dstate, unit) prog" where
  "fs_call ev f =
     (\<lambda>s. let s' = s\<lparr>events := events s @ [ev]\<rparr>
          in case f (outdir s) of
               Inl e \<Rightarrow> (Inl e, s')
             | Inr d \<Rightarrow> (Inr (), s'\<lparr>outdir := d\<rparr>))"

subsection \<open>Output reorganization (lines 124 to 147)\<close>

text \<open>
  One iteration of the loop, for the entry \<open>name\<close> the glob found.  A directory entry
  contains no slash, so that the entry \<open>os.path.basename(fastq_file)\<close> names is \<open>name\<close>
  itself, and the created directory is the entry \<open>sample\<close> of the output directory.
\<close>

definition reorganize_file :: "dargs \<Rightarrow> string \<Rightarrow> string \<Rightarrow> (dstate, unit) prog" where
  "reorganize_file a output_path name =
     (let fastq_file = path_join output_path [name];
          base = basename fastq_file
      in if skip_undetermined a \<and> starts_with ''Undetermined'' base then
           block [perform (LogInfo (''removing '' @ base)),
                  fs_call (Remove fastq_file) (fs_remove name)]
         else if star_structure a then
           (case re_match_group1 base of
              Some sample \<Rightarrow>
                block [
                  (\<lambda>s. whenever (\<not> fs_exists sample (outdir s))
                         (block [perform (LogDebug (''creating '' @ path_join output_path [sample])),
                                 fs_call (Mkdir (path_join output_path [sample]))
                                         (fs_mkdir sample)]) s),
                  perform (LogDebug (''moving '' @ fastq_file)),
                  fs_call (Rename fastq_file (path_join output_path [sample, base]))
                          (fs_rename_into name sample base)]
            | None \<Rightarrow> perform (LogWarning (''Warning: regex didn't match '' @ fastq_file)))
         else return ())"

definition reorganize :: "dargs \<Rightarrow> string \<Rightarrow> (dstate, unit) prog" where
  "reorganize a output_path =
     (\<lambda>s. let names = glob_fastqgz (outdir s);
              fastqgz_files = map (\<lambda>n. path_join output_path [n]) names
          in block (perform (LogDebug (''all fastq.gz files'' @ [CHR 0x0A]
                                        @ join [CHR 0x0A] fastqgz_files @ [CHR 0x0A, CHR 0x0A]))
                    # map (reorganize_file a output_path) names) s)"

subsection \<open>\<open>main\<close>\<close>

definition BCL2FASTQ :: string where
  "BCL2FASTQ = ''bcl2fastq''"

definition sampler_command :: string where
  "sampler_command =
     ''while true; do echo '' @ dq @ ''memory usage'' @ dq
       @ '' `cat /sys/fs/cgroup/memory/memory.usage_in_bytes`; echo '' @ dq @ ''disk usage'' @ dq
       @ '' `df -h | grep '' @ dq @ ''/mnt'' @ dq @ ''`; sleep 90; done''"

definition root_of :: "demux_env \<Rightarrow> dargs \<Rightarrow> string" where
  "root_of env a =
     (if truthy (job_id env) then path_join (root_dir a) [the (job_id env)] else root_dir a)"

definition result_path_of :: "demux_env \<Rightarrow> dargs \<Rightarrow> string \<Rightarrow> string" where
  "result_path_of env a exp = path_join (root_of env a) [''data'', ''hca'', exp]"

text \<open>
  The body of \<open>main\<close> once the arguments are parsed.  \<open>os.path.join\<close> raises
  \<open>TypeError\<close> on an experiment id that was not given (\<open>None\<close>).  The text the
  \<open>ls -d\<close> call prints is used as a \<open>str\<close>.  The sampler is started by \<open>Popen\<close> and
  stopped by \<open>p.kill()\<close>, the last statement.
\<close>

definition main_body :: "demux_env \<Rightarrow> dargs \<Rightarrow> (dstate, unit) prog" where
  "main_body env a =
     (case exp_id a of
        None \<Rightarrow> raise TypeError
      | Some exp \<Rightarrow>
         (let result_path = result_path_of env a exp;
              bcl_path = path_join result_path [''bcl''];
              output_path = path_join result_path [''fastqs'']
          in block [
               bind (perform (Makedirs result_path)) (\<lambda>_. case makedirs_result env of
                  None \<Rightarrow> return () | Some e \<Rightarrow> raise e),
               bind (perform (Mkdir bcl_path)) (\<lambda>_. case mkdir_result env of
                  None \<Rightarrow> return () | Some e \<Rightarrow> raise e),
               download_sheet env a result_path,
               sync_bcl env a exp bcl_path,
               perform (Popen sampler_command),
               log_command env [BCL2FASTQ, bcl2fastq_options a,
                                ''--sample-sheet'', path_join result_path [sheet_name a],
                                ''-R'', bcl_path, ''-o'', output_path],
               (\<lambda>s. (Inr (), s\<lparr>outdir := produced env\<rparr>)),
               reorganize a output_path,
               perform Flush,
               sync_fastqs env a exp output_path,
               log_command env [''aws'', ''s3'', ''ls'', ''--recursive'', fastq_target a exp],
               bind (check_output env
                       (''ls -d '' @ path_join output_path
                                       [''Reports'', ''html'', ''*'', ''all'', ''all'', ''all'']))
                    (\<lambda>out. cp_reports env a exp (rstrip out)),
               perform Kill]))"

text \<open>
  \<open>parser.parse_args()\<close> is the first statement of \<open>main\<close>: \<open>parsed\<close> is what it
  gives on the command line of the run, the namespace or argparse's exit.
\<close>

definition main :: "demux_env \<Rightarrow> exn + dargs \<Rightarrow> (dstate, unit) prog" where
  "main env parsed = (case parsed of Inl e \<Rightarrow> raise e | Inr a \<Rightarrow> main_body env a)"

subsection \<open>The entry point (lines 191 to 229)\<close>

definition S3_LOG_DIR :: string where
  "S3_LOG_DIR = ''s3://jamestwebber-logs/bcl2fastq_logs/''"

definition log_file :: "demux_env \<Rightarrow> string option" where
  "log_file env = (if truthy (job_id env) then Some (the (job_id env) @ ''.log'') else None)"

definition log_cmd :: "string \<Rightarrow> string" where
  "log_cmd f = ''aws s3 cp '' @ f @ '' '' @ S3_LOG_DIR"

text \<open>
  \<^verbatim>\<open>try: main(mainlogger)
  except: mainlogger.info("An exception occurred", exc_info=True); raise
  finally: if log_file: ...\<close>
  An exception of the \<open>finally\<close> block replaces the one that was on its way.
\<close>

definition try_main :: "demux_env \<Rightarrow> exn + dargs \<Rightarrow> (dstate, unit) prog" where
  "try_main env parsed =
     (\<lambda>s. let (r, s1) = main env parsed s;
              s2 = (case r of
                      Inl _ \<Rightarrow> snd (perform (LogInfo ''An exception occurred'') s1)
                    | Inr _ \<Rightarrow> s1)
          in case log_file env of
               None \<Rightarrow> (r, s2)
             | Some f \<Rightarrow>
                (case block [perform (LogInfo (log_cmd f)),
                             perform CloseLog,
                             bind (check_output env (log_cmd f)) (\<lambda>_. return ())] s2 of
                   (Inl e, s3) \<Rightarrow> (Inl e, s3)
                 | (Inr _, s3) \<Rightarrow> (r, s3)))"

definition entry :: "demux_env \<Rightarrow> exn + dargs \<Rightarrow> (exn + unit) \<times> dstate" where
  "entry env parsed =
     (case log_file env of
        None \<Rightarrow> try_main env parsed start
      | Some f \<Rightarrow>
         (case log_open env of
            Some e \<Rightarrow> (Inl e, start)
          | None \<Rightarrow> try_main env parsed start))"

section \<open>Concrete runs\<close>

text \<open>Command lines, worlds and directory contents the theorems below are evaluated at.\<close>

definition cli0 :: cli where
  "cli0 = \<lparr> c_s3_script_path = ''jamestwebber-logs/scripts'',
            c_script_name = ''bcl2fastq.py'',
            c_script_args = ''--exp_id X'',
            c_ecr_image = None, c_ami = None, c_queue = None,
            c_vcpus = None, c_memory = None, c_storage = None,
            c_ulimits = None, c_environment = None,
            c_dryrun = False, c_upload = False, c_debug = False, c_testargs = False \<rparr>"

definition lenv0 :: launcher_env where
  "lenv0 = \<lparr> script_exists = True, head_object = None, upload_file = None,
             exec_module = Inr NoGetParser, submit_output = Inr ''job-1'' \<rparr>"

definition dargs0 :: dargs where
  "dargs0 = \<lparr> exp_id = Some ''X'',
              s3_input_dir = ''s3://czbiohub-seqbot/bcl'',
              s3_output_dir = ''s3://czbiohub-seqbot/fastqs'',
              s3_report_dir = ''s3://czbiohub-seqbot/reports'',
              s3_sample_sheet_dir = ''s3://czbiohub-seqbot/sample-sheets'',
              star_structure = False,
              bcl2fastq_options = ''--no-lane-splitting'',
              skip_undetermined = False,
              sample_sheet_name = None,
              root_dir = ''/mnt'' \<rparr>"

definition sampleA_R1 :: string where
  "sampleA_R1 = ''SampleA_R1_001.fastq.gz''"

definition sampleA_R2 :: string where
  "sampleA_R2 = ''SampleA_R2_001.fastq.gz''"

definition undetermined_R1 :: string where
  "undetermined_R1 = ''Undetermined_R1_001.fastq.gz''"

definition three_files :: dir where
  "three_files = [(sampleA_R1, File 1), (sampleA_R2, File 2), (undetermined_R1, File 3)]"

definition denv0 :: demux_env where
  "denv0 = \<lparr> job_id = Some ''job1'', shell = (\<lambda>n. Some ''ok''), makedirs_result = None,
             mkdir_result = None, produced = three_files, log_open = None \<rparr>"

text \<open>\<open>mentions s t\<close>: the text \<open>t\<close> occurs in \<open>s\<close>.\<close>

fun mentions :: "string \<Rightarrow> string \<Rightarrow> bool" where
  "mentions [] t = (t = [])"
| "mentions (c # cs) t = (starts_with t (c # cs) \<or> mentions cs t)"

definition is_shell :: "event \<Rightarrow> bool" where
  "is_shell ev = (case ev of Shell _ \<Rightarrow> True | _ \<Rightarrow> False)"

definition is_log :: "event \<Rightarrow> bool" where
  "is_log ev = (case ev of LogDebug _ \<Rightarrow> True | LogInfo _ \<Rightarrow> True | LogWarning _ \<Rightarrow> True
                | LogError _ \<Rightarrow> True | _ \<Rightarrow> False)"

definition is_upload :: "event \<Rightarrow> bool" where
  "is_upload ev = (case ev of S3Upload _ _ _ \<Rightarrow> True | _ \<Rightarrow> False)"

text \<open>The events a program adds to the trace it starts from.\<close>

definition added :: "dstate \<Rightarrow> dstate \<Rightarrow> event list" where
  "added s s' = drop (length (events s)) (events s')"

section \<open>Verified properties\<close>

subsection \<open>Resource validators\<close>

lemma is_digit_char_of: "(d::nat) < 10 \<Longrightarrow> is_digit (char_of (48 + d))"
  by (simp add: is_digit_def)

lemma digit_val_char_of: "(d::nat) < 10 \<Longrightarrow> digit_val (char_of (48 + d)) = d"
  by (simp add: digit_val_def)

lemma str_nat_digits: "list_all is_digit (str_nat n)"
proof (induction n rule: str_nat.induct)
  case (1 n)
  show ?case
  proof (cases "n < 10")
    case True
    then show ?thesis by (subst str_nat.simps) (simp add: is_digit_char_of)
  next
    case False
    with 1 show ?thesis by (subst str_nat.simps) (simp add: is_digit_char_of)
  qed
qed

lemma str_nat_nonempty: "str_nat n \<noteq> []"
  by (subst str_nat.simps) simp

lemma is_digit_not_space: "is_digit c \<Longrightarrow> \<not> is_space c"
  by (auto simp: is_digit_def is_space_def)

lemma is_digit_not_sign: "is_digit c \<Longrightarrow> c \<noteq> CHR ''-'' \<and> c \<noteq> CHR ''+'' \<and> c \<noteq> CHR ''_''"
  by (auto simp: is_digit_def)

lemma digits_ok_all: "s \<noteq> [] \<Longrightarrow> list_all is_digit s \<Longrightarrow> digits_ok s"
  by (induction s rule: digits_ok.induct) (auto dest: is_digit_not_sign)

lemma filter_digits: "list_all is_digit s \<Longrightarrow> filter (\<lambda>c. c \<noteq> CHR ''_'') s = s"
  by (induction s) (auto dest: is_digit_not_sign)

lemma digits_value_str_nat: "digits_value (str_nat n) = n"
proof (induction n rule: str_nat.induct)
  case (1 n)
  show ?case
  proof (cases "n < 10")
    case True
    then show ?thesis
      by (subst str_nat.simps) (simp add: digits_value_def digit_val_char_of is_digit_not_sign is_digit_char_of)
  next
    case False
    have f: "filter (\<lambda>c. c \<noteq> CHR ''_'') (str_nat (n div 10)) = str_nat (n div 10)"
      by (rule filter_digits [OF str_nat_digits])
    have m: "n mod 10 < 10" by simp
    from False 1 have ih: "digits_value (str_nat (n div 10)) = n div 10" by simp
    show ?thesis
      using False ih f m
      by (subst str_nat.simps)
         (simp add: digits_value_def digit_val_char_of is_digit_not_sign is_digit_char_of)
  qed
qed

lemma dropWhile_hd_id: "xs \<noteq> [] \<Longrightarrow> \<not> P (hd xs) \<Longrightarrow> dropWhile P xs = xs"
  by (cases xs) auto

lemma strip_id: "s \<noteq> [] \<Longrightarrow> \<not> is_space (hd s) \<Longrightarrow> \<not> is_space (last s) \<Longrightarrow> strip s = s"
  by (simp add: strip_def rstrip_def dropWhile_hd_id hd_rev)

lemma last_str_nat: "is_digit (last (str_nat n))"
  using str_nat_digits [of n] str_nat_nonempty [of n]
  by (simp add: list_all_iff)

lemma hd_str_nat: "is_digit (hd (str_nat n))"
  using str_nat_digits [of n] str_nat_nonempty [of n]
  by (simp add: list_all_iff)

lemma int_of_str_str_int: "int_of_str (str_int i) = Inr i"
proof (cases "i < 0")
  case True
  have s: "strip (CHR ''-'' # str_nat (nat (- i))) = CHR ''-'' # str_nat (nat (- i))"
    by (rule strip_id) (simp_all add: str_nat_nonempty is_digit_not_space last_str_nat, simp add: is_space_def)
  show ?thesis using True
    by (simp add: int_of_str_def str_int_def s Let_def digits_ok_all str_nat_nonempty
        str_nat_digits digits_value_str_nat)
next
  case False
  have s: "strip (str_nat (nat i)) = str_nat (nat i)"
    by (rule strip_id) (simp_all add: str_nat_nonempty is_digit_not_space last_str_nat hd_str_nat)
  have h: "hd (str_nat (nat i)) \<noteq> CHR ''-'' \<and> hd (str_nat (nat i)) \<noteq> CHR ''+''"
    using hd_str_nat [of "nat i"] is_digit_not_sign by blast
  show ?thesis using False h
    by (simp add: int_of_str_def str_int_def s Let_def digits_ok_all str_nat_nonempty
        str_nat_digits digits_value_str_nat)
qed

lemma resource_range_str_int:
  "resource_range name lo hi (str_int n) =
     (if n < lo then Inl (ArgumentTypeError (name @ '' must be at least''))
      else if hi < n then Inl (ArgumentTypeError (name @ '' can be at most''))
      else Inr n)"
  by (simp add: resource_range_def int_of_str_str_int)

lemma typed_option_str_int:
  "typed_option flag (resource_range name lo hi) dflt wrap (Some (str_int n)) =
     (if n < lo then Inl (ArgparseExit (''argument '' @ flag @ '': '' @ name @ '' must be at least''))
      else if hi < n then Inl (ArgparseExit (''argument '' @ flag @ '': '' @ name @ '' can be at most''))
      else Inr (wrap n))"
  by (simp add: typed_option_def resource_range_str_int)

lemma typed_option_None: "typed_option flag ty dflt wrap None = Inr dflt"
  by (simp add: typed_option_def)

text \<open>
  C9.  Given the decimal text of an integer \<open>n\<close>, each of the three validators returns
  \<open>n\<close> itself when \<open>n\<close> is within the declared bounds (\<open>--vcpus\<close> 1 to 64, \<open>--memory\<close> 0 to
  256000, \<open>--storage\<close> 500 to 16000), and raises \<open>ArgumentTypeError\<close> with a message
  that names the resource and the violated side otherwise.  At argument-parse time a
  command line that gives an out-of-range value is rejected, and one that is accepted
  carries the given values unchanged.
\<close>

theorem resource_validators_accept_exactly_the_declared_ranges:
  "vcpus_type (str_int n) =
     (if 1 \<le> n \<and> n \<le> 64 then Inr n
      else Inl (ArgumentTypeError (if n < 1 then ''vcpus must be at least''
                                   else ''vcpus can be at most'')))
   \<and> memory_type (str_int n) =
     (if 0 \<le> n \<and> n \<le> 256000 then Inr n
      else Inl (ArgumentTypeError (if n < 0 then ''memory must be at least''
                                   else ''memory can be at most'')))
   \<and> storage_type (str_int n) =
     (if 500 \<le> n \<and> n \<le> 16000 then Inr n
      else Inl (ArgumentTypeError (if n < 500 then ''storage must be at least''
                                   else ''storage can be at most'')))
   \<and> (c_vcpus c = Some (str_int n) \<and> \<not> (1 \<le> n \<and> n \<le> 64) \<longrightarrow> isl (parse_args c))
   \<and> (c_memory c = Some (str_int n) \<and> \<not> (0 \<le> n \<and> n \<le> 256000) \<longrightarrow> isl (parse_args c))
   \<and> (c_storage c = Some (str_int n) \<and> \<not> (500 \<le> n \<and> n \<le> 16000) \<longrightarrow> isl (parse_args c))
   \<and> (parse_args c = Inr a \<longrightarrow>
        (c_vcpus c = Some (str_int n) \<longrightarrow> vcpus a = n \<and> 1 \<le> n \<and> n \<le> 64)
      \<and> (c_memory c = Some (str_int n) \<longrightarrow> memory a = n \<and> 0 \<le> n \<and> n \<le> 256000)
      \<and> (c_storage c = Some (str_int n) \<longrightarrow> storage a = Some n \<and> 500 \<le> n \<and> n \<le> 16000))"
proof -
  have v: "vcpus_type (str_int n) =
     (if 1 \<le> n \<and> n \<le> 64 then Inr n
      else Inl (ArgumentTypeError (if n < 1 then ''vcpus must be at least''
                                   else ''vcpus can be at most'')))"
    by (simp add: vcpus_type_def resource_range_str_int)
  have m: "memory_type (str_int n) =
     (if 0 \<le> n \<and> n \<le> 256000 then Inr n
      else Inl (ArgumentTypeError (if n < 0 then ''memory must be at least''
                                   else ''memory can be at most'')))"
    by (simp add: memory_type_def resource_range_str_int)
  have s: "storage_type (str_int n) =
     (if 500 \<le> n \<and> n \<le> 16000 then Inr n
      else Inl (ArgumentTypeError (if n < 500 then ''storage must be at least''
                                   else ''storage can be at most'')))"
    by (simp add: storage_type_def resource_range_str_int)
  have pv: "c_vcpus c = Some (str_int n) \<and> \<not> (1 \<le> n \<and> n \<le> 64) \<longrightarrow> isl (parse_args c)"
    by (auto simp: parse_args_def vcpus_type_def typed_option_str_int)
  have pm: "c_memory c = Some (str_int n) \<and> \<not> (0 \<le> n \<and> n \<le> 256000) \<longrightarrow> isl (parse_args c)"
    by (auto simp: parse_args_def memory_type_def typed_option_str_int split: sum.splits)
  have ps: "c_storage c = Some (str_int n) \<and> \<not> (500 \<le> n \<and> n \<le> 16000) \<longrightarrow> isl (parse_args c)"
    by (auto simp: parse_args_def storage_type_def typed_option_str_int split: sum.splits)
  have av: "parse_args c = Inr a \<Longrightarrow> c_vcpus c = Some (str_int n) \<Longrightarrow> vcpus a = n \<and> 1 \<le> n \<and> n \<le> 64"
    by (auto simp: parse_args_def vcpus_type_def typed_option_str_int split: sum.splits if_splits)
  have am: "parse_args c = Inr a \<Longrightarrow> c_memory c = Some (str_int n) \<Longrightarrow> memory a = n \<and> 0 \<le> n \<and> n \<le> 256000"
    by (auto simp: parse_args_def memory_type_def typed_option_str_int split: sum.splits if_splits)
  have as: "parse_args c = Inr a \<Longrightarrow> c_storage c = Some (str_int n) \<Longrightarrow> storage a = Some n \<and> 500 \<le> n \<and> n \<le> 16000"
    by (auto simp: parse_args_def storage_type_def typed_option_str_int split: sum.splits if_splits)
  show ?thesis
    using v m s pv pm ps av am as by blast
qed

theorem resource_validators_accept_exactly_the_declared_ranges_witness:
  "c_vcpus (cli0\<lparr>c_vcpus := Some (str_int 65)\<rparr>) = Some (str_int 65)
   \<and> \<not> (1 \<le> (65::int) \<and> (65::int) \<le> 64)
   \<and> isl (parse_args (cli0\<lparr>c_vcpus := Some (str_int 65)\<rparr>))
   \<and> vcpus_type (str_int 65) = Inl (ArgumentTypeError ''vcpus can be at most'')
   \<and> c_vcpus (cli0\<lparr>c_vcpus := Some (str_int 16)\<rparr>) = Some (str_int 16)
   \<and> parse_args (cli0\<lparr>c_vcpus := Some (str_int 16)\<rparr>)
        = Inr (projr (parse_args (cli0\<lparr>c_vcpus := Some (str_int 16)\<rparr>)))
   \<and> vcpus (projr (parse_args (cli0\<lparr>c_vcpus := Some (str_int 16)\<rparr>))) = 16"
proof -
  let ?c = "cli0\<lparr>c_vcpus := Some (str_int 16)\<rparr>"
  have "\<not> isl (parse_args ?c)"
    by (simp add: parse_args_def cli0_def vcpus_type_def typed_option_str_int typed_option_None)
  then have p: "parse_args ?c = Inr (projr (parse_args ?c))"
    by (cases "parse_args ?c") simp_all
  show ?thesis
    using resource_validators_accept_exactly_the_declared_ranges
            [of 65 "cli0\<lparr>c_vcpus := Some (str_int 65)\<rparr>"]
          resource_validators_accept_exactly_the_declared_ranges
            [of 16 ?c "projr (parse_args ?c)"] p
    by simp
qed


subsection \<open>Launcher\<close>

lemmas trace_prog_defs =
  bind_def return_def raise_def emit_def whenever_def outcome_def

lemmas launcher_defs =
  launcher_def launcher_body_def upload_step_def testargs_step_def submit_step_def

lemma parse_args_flags:
  "parse_args c = Inr a \<Longrightarrow>
     dryrun a = c_dryrun c \<and> upload a = c_upload c \<and> testargs a = c_testargs c
     \<and> ecr_image a = c_ecr_image c \<and> ami a = c_ami c"
  by (auto simp: parse_args_def split: if_splits sum.splits)

lemma default_image_flags [simp]:
  "dryrun (default_image a) = dryrun a"
  "upload (default_image a) = upload a"
  "testargs (default_image a) = testargs a"
  "script_name (default_image a) = script_name a"
  by (simp_all add: default_image_def)

text \<open>
  C2 (as amended).  With \<open>--testargs\<close> and a script that has no \<open>get_parser\<close>, the run
  fails and no submission command is run.  The upload step comes first in the script:
  the script is uploaded before the failure exactly when the command line parses,
  \<open>--upload\<close> is given without \<open>--dryrun\<close> and the script exists locally.  When the
  earlier steps succeed, the failure is the \<open>ValueError\<close> about \<open>get_parser\<close>.
\<close>

theorem testargs_without_get_parser_fails_before_submission:
  assumes "c_testargs c" and "exec_module env = Inr NoGetParser"
  shows "isl (fst (launcher env c))
       \<and> filter is_shell (snd (launcher env c)) = []
       \<and> (filter is_upload (snd (launcher env c)) \<noteq> [] \<longleftrightarrow>
            \<not> isl (parse_args c) \<and> c_upload c \<and> \<not> c_dryrun c \<and> script_exists env)
       \<and> (\<forall>a. parse_args c = Inr a \<and> script_exists env
              \<and> (if c_upload c then c_dryrun c \<or> upload_file env = None
                  else head_object env = None)
            \<longrightarrow> fst (launcher env c) = Inl (no_get_parser a))"
proof (cases "parse_args c")
  case (Inl e)
  then show ?thesis by (simp add: launcher_def)
next
  case (Inr a)
  note fl = parse_args_flags [OF Inr]
  from assms fl have t: "testargs a" by simp
  show ?thesis
    using assms(2) t fl Inr
    by (auto simp: launcher_defs trace_prog_defs is_shell_def is_upload_def no_get_parser_def
                   Let_def
             split: option.splits exn.splits)
qed

theorem testargs_without_get_parser_fails_before_submission_witness:
  "c_testargs (cli0\<lparr>c_testargs := True\<rparr>) \<and> exec_module lenv0 = Inr NoGetParser
   \<and> isl (fst (launcher lenv0 (cli0\<lparr>c_testargs := True\<rparr>)))
   \<and> filter is_shell (snd (launcher lenv0 (cli0\<lparr>c_testargs := True\<rparr>))) = []
   \<and> filter is_upload (snd (launcher lenv0 (cli0\<lparr>c_testargs := True\<rparr>))) = []"
  using testargs_without_get_parser_fails_before_submission
          [of "cli0\<lparr>c_testargs := True\<rparr>" lenv0]
  by (simp add: cli0_def lenv0_def)

text \<open>
  C2 (as stated) fails: with \<open>--testargs --upload\<close>, an existing script that has no
  \<open>get_parser\<close> and a working S3 client, the script is uploaded, and only then does the
  run fail.
\<close>

theorem testargs_failure_comes_after_the_upload:
  "launcher lenv0 (cli0\<lparr>c_testargs := True, c_upload := True\<rparr>) =
     (Inl (ValueError ''bcl2fastq.py has no 'get_parser' method, can't test args''),
      [LogDebug ''Starting S3 client'',
       LogInfo ''Uploading bcl2fastq.py to s3://jamestwebber-logs/scripts/bcl2fastq.py'',
       LogDebug ''Filename: bcl2fastq.py, Bucket: jamestwebber-logs, Key: scripts/bcl2fastq.py'',
       S3Upload ''bcl2fastq.py'' ''jamestwebber-logs'' ''scripts/bcl2fastq.py'',
       LogDebug ''Testing script args'',
       LogDebug ''Importing script as a module''])"
  by (simp add: launcher_defs trace_prog_defs cli0_def lenv0_def parse_args_def
        typed_option_def default_image_def truthy_def no_get_parser_def s3_bucket_def
        s3_key_def script_base_def basename_def path_split_def path_join_def path_join2_def
        Let_def)



text \<open>
  C10.  With \<open>--dryrun\<close> and \<open>--upload\<close> the S3 upload call is never made.  The check that
  the script exists locally still happens (a missing script ends the run with the
  \<open>ValueError\<close>), and for an existing script both upload messages are still logged.
\<close>

theorem dryrun_upload_skips_only_the_s3_call:
  assumes "c_dryrun c" and "c_upload c"
  shows "filter is_upload (snd (launcher env c)) = []
       \<and> (\<forall>a. parse_args c = Inr a \<longrightarrow>
            (if script_exists env
             then take 3 (snd (launcher env c)) =
                    [LogDebug ''Starting S3 client'',
                     LogInfo (''Uploading '' @ script_name a @ '' to s3://''
                                @ path_join (s3_bucket (default_image a))
                                            [s3_key (default_image a)]),
                     LogDebug (''Filename: '' @ script_name a @ '', Bucket: ''
                                @ s3_bucket (default_image a) @ '', Key: ''
                                @ s3_key (default_image a))]
             else launcher env c =
                    (Inl (ValueError (''Can't find script: '' @ script_name a)),
                     [LogDebug ''Starting S3 client''])))"
proof (cases "parse_args c")
  case (Inl e)
  then show ?thesis by (simp add: launcher_def)
next
  case (Inr a)
  from assms parse_args_flags [OF Inr] have f: "dryrun a" "upload a" by simp_all
  have 1: "filter is_upload (snd (launcher env c)) = []"
    using Inr f
    by (auto simp: launcher_defs trace_prog_defs is_upload_def Let_def
             split: option.splits exn.splits sum.splits script_module.splits)
  have 2: "script_exists env \<Longrightarrow> take 3 (snd (launcher env c)) =
                    [LogDebug ''Starting S3 client'',
                     LogInfo (''Uploading '' @ script_name a @ '' to s3://''
                                @ path_join (s3_bucket (default_image a))
                                            [s3_key (default_image a)]),
                     LogDebug (''Filename: '' @ script_name a @ '', Bucket: ''
                                @ s3_bucket (default_image a) @ '', Key: ''
                                @ s3_key (default_image a))]"
    using Inr f
    by (auto simp: launcher_defs trace_prog_defs Let_def
             split: option.splits exn.splits sum.splits script_module.splits)
  have 3: "\<not> script_exists env \<Longrightarrow> launcher env c =
                    (Inl (ValueError (''Can't find script: '' @ script_name a)),
                     [LogDebug ''Starting S3 client''])"
    using Inr f
    by (simp add: launcher_defs trace_prog_defs Let_def cant_find_script_def)
  from 1 2 3 Inr show ?thesis by simp
qed

theorem dryrun_upload_skips_only_the_s3_call_witness:
  "c_dryrun (cli0\<lparr>c_dryrun := True, c_upload := True\<rparr>)
   \<and> c_upload (cli0\<lparr>c_dryrun := True, c_upload := True\<rparr>)
   \<and> filter is_upload (snd (launcher lenv0 (cli0\<lparr>c_dryrun := True, c_upload := True\<rparr>))) = []"
  using dryrun_upload_skips_only_the_s3_call
          [of "cli0\<lparr>c_dryrun := True, c_upload := True\<rparr>" lenv0]
  by simp

lemma str_int_defaults: "str_int 1 = ''1''" "str_int 4000 = ''4000''"
  by code_simp+

text \<open>
  C4.  The claim holds when neither selector is given (the image is \<open>sra_download\<close>),
  when both are given (argparse rejects the command line) and when only \<open>--ecr-image\<close>
  is given.  It fails when only \<open>--ami\<close> is given: the test on line 123 then still sets
  the ECR image, and the submitted command carries \<open>--ecr-image sra_download\<close> and no
  \<open>--ami\<close>.
\<close>

theorem ami_alone_is_replaced_by_the_default_ecr_image:
  "launcher lenv0 (cli0\<lparr>c_ami := Some ''ami-0123''\<rparr>) =
     (Inr (),
      [LogDebug ''Starting S3 client'',
       S3Head ''jamestwebber-logs'' ''scripts/bcl2fastq.py'',
       LogInfo (executing
         (''aegea batch submit --queue aegea_batch --vcpus 1 --memory 4000''
            @ '' --ecr-image sra_download --command '' @ dq
            @ ''aws s3 cp s3://jamestwebber-logs/scripts/bcl2fastq.py .; ''
            @ ''chmod 755 bcl2fastq.py; ./bcl2fastq.py --exp_id X'' @ dq)),
       Shell
         (''aegea batch submit --queue aegea_batch --vcpus 1 --memory 4000''
            @ '' --ecr-image sra_download --command '' @ dq
            @ ''aws s3 cp s3://jamestwebber-logs/scripts/bcl2fastq.py .; ''
            @ ''chmod 755 bcl2fastq.py; ./bcl2fastq.py --exp_id X'' @ dq),
       LogInfo ''Launched job with jobId: job-1''])"
  by (simp add: launcher_defs trace_prog_defs cli0_def lenv0_def parse_args_def
        typed_option_def default_image_def truthy_def truthy_int_def aegea_command_def
        job_command_def s3_bucket_def s3_key_def script_base_def basename_def path_split_def
        path_join_def path_join2_def dq_def executing_def
        str_int_defaults Let_def)


end
